theory Spec2Isabelle
  imports Main "HOL-Library.Sublist"
begin

unbundle bit_operations_syntax

section \<open>InputList.h: report formats, logical inputs and the descriptor table\<close>

subsection \<open>Event reporting string formats\<close>

text \<open>
  The macros of InputList.h build string literals by juxtaposition; \<open>#x\<close> turns the macro
  argument into its text. Here a macro with an argument takes that text as a string, and
  juxtaposition is \<open>@\<close>. A C string is a list of bytes; \<open>\r\<close> is 0x0D and \<open>\n\<close> is 0x0A.
\<close>

definition EVFMT_NEWLINE :: string where
  "EVFMT_NEWLINE = [CHR 0x0D, CHR 0x0A]"

definition EVFMT_Icon :: "string \<Rightarrow> string" where
  "EVFMT_Icon x = ''ICON '' @ x @ EVFMT_NEWLINE"

definition EVFMT_Icon_PR :: "string \<Rightarrow> string" where
  "EVFMT_Icon_PR x = ''ICON '' @ x @ '' %c'' @ EVFMT_NEWLINE"

definition EVFMT_Accelerate :: string where
  "EVFMT_Accelerate = ''ACCL %c'' @ EVFMT_NEWLINE"

definition EVFMT_Brake :: string where
  "EVFMT_Brake = ''BREK %c'' @ EVFMT_NEWLINE"

definition EVFMT_Gauge :: "string \<Rightarrow> string" where
  "EVFMT_Gauge x = ''GAUG '' @ x @ '' %u'' @ EVFMT_NEWLINE"

definition EVFMT_Ignite :: string where
  "EVFMT_Ignite = ''IGNT'' @ EVFMT_NEWLINE"

definition EVFMT_Hazard :: string where
  "EVFMT_Hazard = ''HZRD'' @ EVFMT_NEWLINE"

definition EVFMT_Gear :: string where
  "EVFMT_Gear = ''GEAR%s'' @ EVFMT_NEWLINE"

definition EVFMT_Gear_Hint1 :: string where
  "EVFMT_Gear_Hint1 = ''''"

definition EVFMT_Gear_Hint2 :: string where
  "EVFMT_Gear_Hint2 = '' L''"

definition EVFMT_Gear_Hint3 :: string where
  "EVFMT_Gear_Hint3 = '' S''"

lemmas EVFMT_defs =
  EVFMT_NEWLINE_def EVFMT_Icon_def EVFMT_Icon_PR_def EVFMT_Accelerate_def EVFMT_Brake_def
  EVFMT_Gauge_def EVFMT_Ignite_def EVFMT_Hazard_def EVFMT_Gear_def
  EVFMT_Gear_Hint1_def EVFMT_Gear_Hint2_def EVFMT_Gear_Hint3_def

subsection \<open>List of all inputs\<close>

text \<open>
  The anonymous enum: the first enumerator is 0 and each following one is its predecessor
  plus one. The enumerators index the descriptor table, so they are natural numbers.
\<close>

definition HIT_LBLINK :: nat where "HIT_LBLINK = 0"
definition HIT_ENGINE :: nat where "HIT_ENGINE = HIT_LBLINK + 1"
definition HIT_OIL :: nat where "HIT_OIL = HIT_ENGINE + 1"
definition HIT_BRAKEABS :: nat where "HIT_BRAKEABS = HIT_OIL + 1"
definition HIT_BATTERY :: nat where "HIT_BATTERY = HIT_BRAKEABS + 1"
definition HIT_SEATBELT :: nat where "HIT_SEATBELT = HIT_BATTERY + 1"
definition HIT_DOOR :: nat where "HIT_DOOR = HIT_SEATBELT + 1"
definition HIT_LIGHT :: nat where "HIT_LIGHT = HIT_DOOR + 1"
definition HIT_HANDBRAKE :: nat where "HIT_HANDBRAKE = HIT_LIGHT + 1"
definition HIT_RBLINK :: nat where "HIT_RBLINK = HIT_HANDBRAKE + 1"
definition HIT_ACCEL :: nat where "HIT_ACCEL = HIT_RBLINK + 1"
definition HIT_BRAKE :: nat where "HIT_BRAKE = HIT_ACCEL + 1"
definition HIT_FUELVALUE :: nat where "HIT_FUELVALUE = HIT_BRAKE + 1"
definition HIT_OILVALUE :: nat where "HIT_OILVALUE = HIT_FUELVALUE + 1"
definition HIT_TERMOVALUE :: nat where "HIT_TERMOVALUE = HIT_OILVALUE + 1"
definition HIT_IGNITION :: nat where "HIT_IGNITION = HIT_TERMOVALUE + 1"
definition HIT_HAZARD_LIGHT :: nat where "HIT_HAZARD_LIGHT = HIT_IGNITION + 1"
definition HIT_SWITCH_ANALOG :: nat where "HIT_SWITCH_ANALOG = HIT_HAZARD_LIGHT + 1"
definition HIT_GEAR :: nat where "HIT_GEAR = HIT_SWITCH_ANALOG + 1"
definition HIT_COUNT :: nat where "HIT_COUNT = HIT_GEAR + 1"

lemmas HIT_defs =
  HIT_LBLINK_def HIT_ENGINE_def HIT_OIL_def HIT_BRAKEABS_def HIT_BATTERY_def
  HIT_SEATBELT_def HIT_DOOR_def HIT_LIGHT_def HIT_HANDBRAKE_def HIT_RBLINK_def
  HIT_ACCEL_def HIT_BRAKE_def HIT_FUELVALUE_def HIT_OILVALUE_def HIT_TERMOVALUE_def
  HIT_IGNITION_def HIT_HAZARD_LIGHT_def HIT_SWITCH_ANALOG_def HIT_GEAR_def HIT_COUNT_def

text \<open>The enumerators in declaration order, \<open>HIT_COUNT\<close> (the total number) left out.\<close>

definition hit_inputs :: "nat list" where
  "hit_inputs =
    [HIT_LBLINK, HIT_ENGINE, HIT_OIL, HIT_BRAKEABS, HIT_BATTERY, HIT_SEATBELT, HIT_DOOR,
     HIT_LIGHT, HIT_HANDBRAKE, HIT_RBLINK, HIT_ACCEL, HIT_BRAKE, HIT_FUELVALUE,
     HIT_OILVALUE, HIT_TERMOVALUE, HIT_IGNITION, HIT_HAZARD_LIGHT, HIT_SWITCH_ANALOG,
     HIT_GEAR]"

subsection \<open>The descriptor table\<close>

text \<open>
  InputList.h uses the key modes \<open>HIT_MODE_PRESS\<close>, \<open>HIT_MODE_PRESS_RELEASE\<close>,
  \<open>HIT_MODE_ANALOG\<close> and \<open>HIT_MODE_GEAR\<close>, the struct \<open>HIT_DESCRIPTOR\<close> and the flag
  \<open>HIT_INDEX_FAKED\<close> without declaring them. The four modes are the constructors of a
  datatype. The struct is a record whose three fields come in the order of the table's
  columns (input index, report format, key mode) and carry the names the specification
  gives them. The value of \<open>HIT_INDEX_FAKED\<close> is not known, so the table takes it as a
  parameter; pin numbers and the flag are C integers, and \<open>|\<close> is bitwise or.
\<close>

datatype HIT_MODE = HIT_MODE_PRESS | HIT_MODE_PRESS_RELEASE | HIT_MODE_ANALOG | HIT_MODE_GEAR

record HIT_DESCRIPTOR =
  sourceLocator :: int
  reportTemplate :: string
  mode :: HIT_MODE

definition hit_descriptor :: "int \<Rightarrow> HIT_DESCRIPTOR list" where
  "hit_descriptor HIT_INDEX_FAKED =
    [\<lparr>sourceLocator = 22, reportTemplate = EVFMT_Icon ''0'', mode = HIT_MODE_PRESS\<rparr>,
     \<lparr>sourceLocator = 24, reportTemplate = EVFMT_Icon ''1'', mode = HIT_MODE_PRESS\<rparr>,
     \<lparr>sourceLocator = 26, reportTemplate = EVFMT_Icon ''2'', mode = HIT_MODE_PRESS\<rparr>,
     \<lparr>sourceLocator = 28, reportTemplate = EVFMT_Icon ''3'', mode = HIT_MODE_PRESS\<rparr>,
     \<lparr>sourceLocator = 30, reportTemplate = EVFMT_Icon ''4'', mode = HIT_MODE_PRESS\<rparr>,
     \<lparr>sourceLocator = 32, reportTemplate = EVFMT_Icon ''5'', mode = HIT_MODE_PRESS\<rparr>,
     \<lparr>sourceLocator = 34, reportTemplate = EVFMT_Icon ''6'', mode = HIT_MODE_PRESS\<rparr>,
     \<lparr>sourceLocator = 36, reportTemplate = EVFMT_Icon_PR ''7'',
        mode = HIT_MODE_PRESS_RELEASE\<rparr>,
     \<lparr>sourceLocator = 38, reportTemplate = EVFMT_Icon ''8'', mode = HIT_MODE_PRESS\<rparr>,
     \<lparr>sourceLocator = 40, reportTemplate = EVFMT_Icon ''9'', mode = HIT_MODE_PRESS\<rparr>,

     \<lparr>sourceLocator = 10, reportTemplate = EVFMT_Accelerate,
        mode = HIT_MODE_PRESS_RELEASE\<rparr>,
     \<lparr>sourceLocator = 9, reportTemplate = EVFMT_Brake, mode = HIT_MODE_PRESS_RELEASE\<rparr>,

     \<lparr>sourceLocator = 0 OR HIT_INDEX_FAKED, reportTemplate = EVFMT_Gauge ''F'',
        mode = HIT_MODE_ANALOG\<rparr>,
     \<lparr>sourceLocator = 1 OR HIT_INDEX_FAKED, reportTemplate = EVFMT_Gauge ''O'',
        mode = HIT_MODE_ANALOG\<rparr>,
     \<lparr>sourceLocator = 2 OR HIT_INDEX_FAKED, reportTemplate = EVFMT_Gauge ''T'',
        mode = HIT_MODE_ANALOG\<rparr>,

     \<lparr>sourceLocator = 12, reportTemplate = EVFMT_Ignite, mode = HIT_MODE_PRESS\<rparr>,
     \<lparr>sourceLocator = 11, reportTemplate = EVFMT_Hazard, mode = HIT_MODE_PRESS\<rparr>,

     \<lparr>sourceLocator = 8, reportTemplate = '''', mode = HIT_MODE_PRESS_RELEASE\<rparr>,

     \<lparr>sourceLocator = 52, reportTemplate = EVFMT_Gear, mode = HIT_MODE_GEAR\<rparr>]"

subsection \<open>Fake analogs\<close>

definition FAKE_ANALOG_COUNT :: nat where
  "FAKE_ANALOG_COUNT = 3"

definition FAKE_ANALOG_REAL_PIN :: int where
  "FAKE_ANALOG_REAL_PIN = 0"

subsection \<open>Reading a source locator\<close>

text \<open>
  Modelled from the spec: the code that takes a source locator apart is not in
  InputList.h. The specification describes the locator as either a real pin number or a
  fake-source index flagged distinctly from real pin numbers. A locator is faked when it
  has a bit of \<open>HIT_INDEX_FAKED\<close> set, and its fake-source index is what remains once the
  flag is masked out.
\<close>

definition is_faked :: "int \<Rightarrow> int \<Rightarrow> bool" where
  "is_faked HIT_INDEX_FAKED loc = (loc AND HIT_INDEX_FAKED \<noteq> 0)"

definition fake_index :: "int \<Rightarrow> int \<Rightarrow> int" where
  "fake_index HIT_INDEX_FAKED loc = loc AND NOT HIT_INDEX_FAKED"

subsection \<open>Placeholders of a report template\<close>

text \<open>
  Modelled from the spec: the event formatter is not in InputList.h. A report template
  carries at most one placeholder for a payload, written as a printf conversion: \<open>%c\<close> for
  a character code, \<open>%u\<close> for an unsigned integer, \<open>%s\<close> for the gear hint. The
  placeholders of a template are its conversions from left to right, each a percent sign
  and the byte after it; a doubled percent sign is a literal percent sign.
\<close>

fun placeholders :: "string \<Rightarrow> string list" where
  "placeholders (c # d # cs) =
     (if c = CHR ''%''
      then (if d = CHR ''%'' then placeholders cs else [c, d] # placeholders cs)
      else placeholders (d # cs))"
| "placeholders cs = []"

text \<open>
  Modelled from the spec: substituting a gear hint into a template replaces the template's
  first \<open>%s\<close> by the hint and copies every other byte. The line ending is already part of
  the template.
\<close>

fun subst_hint :: "string \<Rightarrow> string \<Rightarrow> string" where
  "subst_hint (c # d # cs) hint =
     (if c = CHR ''%'' \<and> d = CHR ''s'' then hint @ cs else c # subst_hint (d # cs) hint)"
| "subst_hint cs hint = cs"

text \<open>The three hints a gear report can carry, in the order of their macros.\<close>

definition gear_hints :: "string list" where
  "gear_hints = [EVFMT_Gear_Hint1, EVFMT_Gear_Hint2, EVFMT_Gear_Hint3]"

subsection \<open>The wire protocol\<close>

text \<open>
  The line formats of section 6 of the specification, written out byte by byte and
  without the macros of InputList.h: a protocol tag, an optional payload placeholder,
  carriage return and line feed. \<open>wire_format\<close> gives the format the section assigns to
  a logical input; the section has no line for the input that switches the fake analog
  source.
\<close>

definition wire_line :: "string \<Rightarrow> string" where
  "wire_line tag = tag @ [CHR 0x0D, CHR 0x0A]"

definition wire_formats :: "string list" where
  "wire_formats =
    [wire_line ''ICON 0'', wire_line ''ICON 1'', wire_line ''ICON 2'', wire_line ''ICON 3'',
     wire_line ''ICON 4'', wire_line ''ICON 5'', wire_line ''ICON 6'', wire_line ''ICON 7 %c'',
     wire_line ''ICON 8'', wire_line ''ICON 9'', wire_line ''ACCL %c'', wire_line ''BREK %c'',
     wire_line ''GAUG F %u'', wire_line ''GAUG O %u'', wire_line ''GAUG T %u'',
     wire_line ''IGNT'', wire_line ''HZRD'', wire_line ''GEAR%s'']"

subsection \<open>Edge-triggered modes\<close>


subsection \<open>The PRESS mode\<close>

text \<open>
  Modelled from the spec: the mode state machine is not in InputList.h. Section 4.3 gives
  a PRESS input the states idle and pressed. On a raw transition from false to true it
  moves from idle to pressed and emits its report, which has no payload and so is the
  template itself; on a transition from true to false it moves back to idle and emits
  nothing; a true sample while already pressed emits nothing.
\<close>

datatype press_state = Idle | Pressed

fun press_step :: "string \<Rightarrow> press_state \<Rightarrow> bool \<Rightarrow> press_state \<times> string list" where
  "press_step t Idle True = (Pressed, [t])"
| "press_step t Pressed False = (Idle, [])"
| "press_step t Pressed True = (Pressed, [])"
| "press_step t Idle False = (Idle, [])"

text \<open>
  A sequence of scan cycles of one PRESS input: each cycle takes one raw sample; the
  reports of all cycles are collected in order.
\<close>

fun press_scan :: "string \<Rightarrow> press_state \<Rightarrow> bool list \<Rightarrow> press_state \<times> string list" where
  "press_scan t s [] = (s, [])"
| "press_scan t s (raw # raws) =
     (case press_step t s raw of (s', out) \<Rightarrow>
        (case press_scan t s' raws of (s'', outs) \<Rightarrow> (s'', out @ outs)))"

definition press_reports :: "string \<Rightarrow> press_state \<Rightarrow> bool list \<Rightarrow> string list" where
  "press_reports t s raws = snd (press_scan t s raws)"

text \<open>
  The number of transitions from false to true in a sequence of samples, \<open>prev\<close> being the
  sample before the first one.
\<close>

fun rising_edges :: "bool \<Rightarrow> bool list \<Rightarrow> nat" where
  "rising_edges prev [] = 0"
| "rising_edges prev (raw # raws) = (if \<not> prev \<and> raw then 1 else 0) + rising_edges raw raws"

subsection \<open>The fake analog binding\<close>

text \<open>
  Modelled from the spec: the fake analog binding and its switching are not in
  InputList.h, which only gives \<open>FAKE_ANALOG_COUNT\<close> and \<open>FAKE_ANALOG_REAL_PIN\<close>.
  The binding holds a selector, the index of the fake source that is live, and for each
  fake source the last raw value recorded for it. Sampling the live source returns the
  reading of the shared real pin; sampling any other source returns its recorded value. A
  scan cycle samples every fake source and records what it sampled. A trigger of the
  switch input advances the selector modulo \<open>FAKE_ANALOG_COUNT\<close>.
\<close>

record FakeAnalogBinding =
  selector :: nat
  frozen :: "nat list"

definition switch_analog :: "FakeAnalogBinding \<Rightarrow> FakeAnalogBinding" where
  "switch_analog b = b\<lparr>selector := (selector b + 1) mod FAKE_ANALOG_COUNT\<rparr>"

definition sample_fake :: "FakeAnalogBinding \<Rightarrow> nat \<Rightarrow> nat \<Rightarrow> nat" where
  "sample_fake b reading i = (if i = selector b then reading else frozen b ! i)"

definition scan_fakes :: "FakeAnalogBinding \<Rightarrow> nat \<Rightarrow> FakeAnalogBinding" where
  "scan_fakes b reading = b\<lparr>frozen := map (sample_fake b reading) [0..<FAKE_ANALOG_COUNT]\<rparr>"

text \<open>
  What happens to the binding over time: a trigger of the switch input, or a scan cycle
  during which the shared real pin reads the given value.
\<close>

datatype fake_event = Trigger | Cycle nat

fun fake_step :: "FakeAnalogBinding \<Rightarrow> fake_event \<Rightarrow> FakeAnalogBinding" where
  "fake_step b Trigger = switch_analog b"
| "fake_step b (Cycle reading) = scan_fakes b reading"

fun fake_run :: "FakeAnalogBinding \<Rightarrow> fake_event list \<Rightarrow> FakeAnalogBinding" where
  "fake_run b [] = b"
| "fake_run b (e # es) = fake_run (fake_step b e) es"

text \<open>
  Fake source \<open>i\<close> is live at no moment of a run: not at its start, and not after any of
  its events.
\<close>

fun never_live :: "nat \<Rightarrow> FakeAnalogBinding \<Rightarrow> fake_event list \<Rightarrow> bool" where
  "never_live i b [] = (selector b \<noteq> i)"
| "never_live i b (e # es) = (selector b \<noteq> i \<and> never_live i (fake_step b e) es)"

section \<open>Properties of the descriptor table\<close>

subsection \<open>The flag and the pin numbers\<close>

text \<open>
  Every pin number of the table is below 64, so it is unchanged by masking with 63. The
  flag \<open>HIT_INDEX_FAKED\<close> tells a fake-source index from a real pin number when it is not
  zero and has none of these six low bits: the lemmas below take \<open>F \<noteq> 0\<close> and
  \<open>F AND 63 = 0\<close> as their hypotheses on the flag.
\<close>

lemma faked_and_flag: "(i OR F) AND F = (F::int)"
  by (auto simp add: bit_eq_iff bit_simps)

lemma pin_and_flag:
  assumes "F AND 63 = (0::int)" and "p AND 63 = p"
  shows "p AND F = 0"
proof -
  have "p AND F = (p AND 63) AND F" using assms(2) by simp
  also have "\<dots> = p AND (F AND 63)" by (simp add: ac_simps)
  finally show ?thesis using assms(1) by simp
qed

lemma faked_low_bits:
  assumes "F AND 63 = (0::int)" and "i AND 63 = i"
  shows "(i OR F) AND 63 = i"
  using assms by (simp add: bit.conj_disj_distrib2)

lemma faked_index:
  assumes "F AND 63 = (0::int)" and "i AND 63 = i"
  shows "(i OR F) AND NOT F = i"
proof -
  have "i AND F = 0" using assms by (rule pin_and_flag)
  then show ?thesis
    by (simp add: bit_eq_iff bit_simps) blast
qed

lemma is_faked_pin:
  assumes "F AND 63 = (0::int)" and "p AND 63 = p"
  shows "\<not> is_faked F p"
  using pin_and_flag [OF assms] by (simp add: is_faked_def)

lemma is_faked_flagged:
  assumes "F \<noteq> 0"
  shows "is_faked F (i OR F)"
  using assms by (simp add: is_faked_def faked_and_flag)

lemma is_faked_flag:
  assumes "F \<noteq> 0"
  shows "is_faked F F"
  using assms by (simp add: is_faked_def)

subsection \<open>The columns of the table\<close>

lemma table_length: "length (hit_descriptor F) = HIT_COUNT"
  by (simp add: hit_descriptor_def HIT_defs)

lemma inputs_upt: "hit_inputs = [0..<HIT_COUNT]"
  by (simp add: hit_inputs_def HIT_defs upt_rec)

lemma table_modes:
  "map mode (hit_descriptor F) =
    [HIT_MODE_PRESS, HIT_MODE_PRESS, HIT_MODE_PRESS, HIT_MODE_PRESS, HIT_MODE_PRESS,
     HIT_MODE_PRESS, HIT_MODE_PRESS, HIT_MODE_PRESS_RELEASE, HIT_MODE_PRESS, HIT_MODE_PRESS,
     HIT_MODE_PRESS_RELEASE, HIT_MODE_PRESS_RELEASE,
     HIT_MODE_ANALOG, HIT_MODE_ANALOG, HIT_MODE_ANALOG,
     HIT_MODE_PRESS, HIT_MODE_PRESS, HIT_MODE_PRESS_RELEASE, HIT_MODE_GEAR]"
  by (simp add: hit_descriptor_def)

lemma table_faked:
  assumes "F \<noteq> 0" and "F AND 63 = 0"
  shows "map (\<lambda>d. is_faked F (sourceLocator d)) (hit_descriptor F) =
    [False, False, False, False, False, False, False, False, False, False, False, False,
     True, True, True, False, False, False, False]"
  using assms by (simp add: hit_descriptor_def is_faked_pin is_faked_flagged is_faked_flag)

lemma table_low_bits:
  assumes "F AND 63 = 0"
  shows "map (\<lambda>d. sourceLocator d AND 63) (hit_descriptor F) =
    [22, 24, 26, 28, 30, 32, 34, 36, 38, 40, 10, 9, 0, 1, 2, 12, 11, 8, 52]"
  using assms by (simp add: hit_descriptor_def faked_low_bits)

text \<open>
  Two locators that agree are both faked or both real, and agree on their six low bits.
  The table's locators differ pairwise in this pair of observations.
\<close>

lemma table_distinct:
  assumes "F \<noteq> 0" and "F AND 63 = 0"
  shows "distinct (map sourceLocator (hit_descriptor F))"
proof -
  let ?key = "\<lambda>l. (is_faked F l, l AND 63)"
  have "map ?key (map sourceLocator (hit_descriptor F)) =
      zip (map (\<lambda>d. is_faked F (sourceLocator d)) (hit_descriptor F))
          (map (\<lambda>d. sourceLocator d AND 63) (hit_descriptor F))"
    by (simp add: zip_map_map zip_same_conv_map)
  also have "distinct \<dots>"
    unfolding table_faked [OF assms] table_low_bits [OF assms(2)] by simp
  finally have "distinct (map ?key (map sourceLocator (hit_descriptor F)))" .
  then show ?thesis
    unfolding distinct_map [of ?key] by (rule conjunct1)
qed

subsection \<open>Shape of the table\<close>

text \<open>
  C4: the descriptor table is indexed 0..HIT_COUNT-1 by the enumeration of the logical
  inputs (the enumerators, in declaration order, are exactly the indices 0 up to
  HIT_COUNT-1), the table has HIT_COUNT rows, and no two rows have the same source
  locator. A fake-source index flagged with \<open>HIT_INDEX_FAKED\<close> counts as distinct from
  every real pin number: the flag is not zero and lies outside the six bits the pin
  numbers use.
\<close>

theorem table_indexed_and_locators_distinct:
  assumes "HIT_INDEX_FAKED \<noteq> 0" and "HIT_INDEX_FAKED AND 63 = 0"
  shows "hit_inputs = [0..<HIT_COUNT]
    \<and> length (hit_descriptor HIT_INDEX_FAKED) = HIT_COUNT
    \<and> distinct (map sourceLocator (hit_descriptor HIT_INDEX_FAKED))"
  using table_distinct [OF assms] by (simp add: table_length inputs_upt)

theorem table_indexed_and_locators_distinct_witness:
  "(128::int) \<noteq> 0 \<and> (128::int) AND 63 = 0
    \<and> hit_inputs = [0..<HIT_COUNT]
    \<and> length (hit_descriptor 128) = HIT_COUNT
    \<and> distinct (map sourceLocator (hit_descriptor 128))"
  using table_indexed_and_locators_distinct [of 128] by simp

text \<open>
  The fake-source indices of the faked rows, in table order.
\<close>

lemma table_fake_indices:
  assumes "F \<noteq> 0" and "F AND 63 = 0"
  shows "map (\<lambda>d. fake_index F (sourceLocator d))
      (filter (\<lambda>d. is_faked F (sourceLocator d)) (hit_descriptor F)) = [0, 1, 2]"
  using assms faked_index [of F 0]
  by (simp add: hit_descriptor_def is_faked_pin is_faked_flagged is_faked_flag
      fake_index_def faked_index)

text \<open>
  C8: every enumeration value of the logical-input enum has exactly one row in the table
  (the enumerators are pairwise different and are exactly the valid row indices), and
  every fake-source index used in the table, that is, the index of every locator flagged
  with \<open>HIT_INDEX_FAKED\<close>, lies in the range from 0 up to but not including
  \<open>FAKE_ANALOG_COUNT\<close>: the indices used are 0, 1 and 2.
\<close>

theorem table_rows_and_fake_indices:
  assumes "HIT_INDEX_FAKED \<noteq> 0" and "HIT_INDEX_FAKED AND 63 = 0"
  shows "distinct hit_inputs
    \<and> set hit_inputs = {i. i < length (hit_descriptor HIT_INDEX_FAKED)}
    \<and> (\<forall>d \<in> set (hit_descriptor HIT_INDEX_FAKED).
          is_faked HIT_INDEX_FAKED (sourceLocator d) \<longrightarrow>
          0 \<le> fake_index HIT_INDEX_FAKED (sourceLocator d)
          \<and> fake_index HIT_INDEX_FAKED (sourceLocator d) < int FAKE_ANALOG_COUNT)
    \<and> map (\<lambda>d. fake_index HIT_INDEX_FAKED (sourceLocator d))
         (filter (\<lambda>d. is_faked HIT_INDEX_FAKED (sourceLocator d))
            (hit_descriptor HIT_INDEX_FAKED)) = [0, 1, 2]"
proof -
  let ?F = HIT_INDEX_FAKED
  let ?fakes = "filter (\<lambda>d. is_faked ?F (sourceLocator d)) (hit_descriptor ?F)"
  have idx: "map (\<lambda>d. fake_index ?F (sourceLocator d)) ?fakes = [0, 1, 2]"
    using assms by (rule table_fake_indices)
  have "\<forall>d \<in> set ?fakes. 0 \<le> fake_index ?F (sourceLocator d)
      \<and> fake_index ?F (sourceLocator d) < int FAKE_ANALOG_COUNT"
  proof
    fix d assume "d \<in> set ?fakes"
    then have "fake_index ?F (sourceLocator d)
        \<in> set (map (\<lambda>d. fake_index ?F (sourceLocator d)) ?fakes)"
      by (simp only: set_map) (rule imageI)
    then have "fake_index ?F (sourceLocator d) \<in> {0, 1, 2}"
      unfolding idx by simp
    then show "0 \<le> fake_index ?F (sourceLocator d)
        \<and> fake_index ?F (sourceLocator d) < int FAKE_ANALOG_COUNT"
      by (auto simp add: FAKE_ANALOG_COUNT_def)
  qed
  then have rng: "\<forall>d \<in> set (hit_descriptor ?F). is_faked ?F (sourceLocator d) \<longrightarrow>
      0 \<le> fake_index ?F (sourceLocator d)
      \<and> fake_index ?F (sourceLocator d) < int FAKE_ANALOG_COUNT"
    by simp
  have "distinct hit_inputs" and "set hit_inputs = {i. i < length (hit_descriptor ?F)}"
    by (auto simp add: inputs_upt table_length)
  with rng idx show ?thesis by blast
qed

theorem table_rows_and_fake_indices_witness:
  "(128::int) \<noteq> 0 \<and> (128::int) AND 63 = 0
    \<and> hit_descriptor 128 ! HIT_OILVALUE \<in> set (hit_descriptor 128)
    \<and> is_faked 128 (sourceLocator (hit_descriptor 128 ! HIT_OILVALUE))
    \<and> 0 \<le> fake_index 128 (sourceLocator (hit_descriptor 128 ! HIT_OILVALUE))
    \<and> fake_index 128 (sourceLocator (hit_descriptor 128 ! HIT_OILVALUE))
        < int FAKE_ANALOG_COUNT"
proof -
  have flag: "(128::int) \<noteq> 0" "(128::int) AND 63 = 0" by simp_all
  have row: "hit_descriptor 128 ! HIT_OILVALUE \<in> set (hit_descriptor 128)"
    by (rule nth_mem) (simp add: table_length HIT_defs)
  have faked: "is_faked 128 (sourceLocator (hit_descriptor 128 ! HIT_OILVALUE))"
    by (simp add: hit_descriptor_def HIT_defs is_faked_def)
  have "\<forall>d \<in> set (hit_descriptor 128). is_faked 128 (sourceLocator d) \<longrightarrow>
      0 \<le> fake_index 128 (sourceLocator d)
      \<and> fake_index 128 (sourceLocator d) < int FAKE_ANALOG_COUNT"
    using table_rows_and_fake_indices [OF flag] by blast
  then have "0 \<le> fake_index 128 (sourceLocator (hit_descriptor 128 ! HIT_OILVALUE))
      \<and> fake_index 128 (sourceLocator (hit_descriptor 128 ! HIT_OILVALUE))
          < int FAKE_ANALOG_COUNT"
    using row faked by blast
  with flag row faked show ?thesis by blast
qed

subsection \<open>Faked locators and analog mode\<close>

lemma table_analog_rows:
  "filter (\<lambda>i. mode (hit_descriptor F ! i) = HIT_MODE_ANALOG) [0..<HIT_COUNT] =
    [HIT_FUELVALUE, HIT_OILVALUE, HIT_TERMOVALUE]"
  by (simp add: hit_descriptor_def HIT_defs upt_rec)

lemma table_real_pins:
  assumes "F \<noteq> 0" and "F AND 63 = 0"
  shows "map sourceLocator
      (filter (\<lambda>d. \<not> is_faked F (sourceLocator d)) (hit_descriptor F)) =
    [22, 24, 26, 28, 30, 32, 34, 36, 38, 40, 10, 9, 12, 11, 8, 52]"
  using assms
  by (simp add: hit_descriptor_def is_faked_pin is_faked_flagged is_faked_flag)

lemma table_faked_modes:
  assumes "F \<noteq> 0" and "F AND 63 = 0"
  shows "map (\<lambda>d. is_faked F (sourceLocator d) \<longleftrightarrow> mode d = HIT_MODE_ANALOG)
    (hit_descriptor F) = replicate 19 True"
  using assms
  by (simp add: hit_descriptor_def is_faked_pin is_faked_flagged is_faked_flag
      eval_nat_numeral)

text \<open>
  C10: a descriptor's source locator carries the flag \<open>HIT_INDEX_FAKED\<close> if and only if
  its mode is \<open>HIT_MODE_ANALOG\<close>; the rows of that mode are exactly the three gauge inputs
  \<open>HIT_FUELVALUE\<close>, \<open>HIT_OILVALUE\<close> and \<open>HIT_TERMOVALUE\<close>; and no descriptor with a real
  pin has the pin number \<open>FAKE_ANALOG_REAL_PIN\<close>, the pin the fake sources share.
\<close>

theorem faked_iff_analog:
  assumes "HIT_INDEX_FAKED \<noteq> 0" and "HIT_INDEX_FAKED AND 63 = 0"
  shows "(\<forall>d \<in> set (hit_descriptor HIT_INDEX_FAKED).
            is_faked HIT_INDEX_FAKED (sourceLocator d) \<longleftrightarrow> mode d = HIT_MODE_ANALOG)
    \<and> (\<forall>i < HIT_COUNT. mode (hit_descriptor HIT_INDEX_FAKED ! i) = HIT_MODE_ANALOG \<longleftrightarrow>
            i \<in> {HIT_FUELVALUE, HIT_OILVALUE, HIT_TERMOVALUE})
    \<and> (\<forall>d \<in> set (hit_descriptor HIT_INDEX_FAKED).
            \<not> is_faked HIT_INDEX_FAKED (sourceLocator d) \<longrightarrow>
            sourceLocator d \<noteq> FAKE_ANALOG_REAL_PIN)"
proof (intro conjI)
  let ?F = HIT_INDEX_FAKED
  let ?agree = "\<lambda>d. is_faked ?F (sourceLocator d) \<longleftrightarrow> mode d = HIT_MODE_ANALOG"
  show "\<forall>d \<in> set (hit_descriptor ?F). ?agree d"
  proof
    fix d assume "d \<in> set (hit_descriptor ?F)"
    then have "?agree d \<in> set (map ?agree (hit_descriptor ?F))"
      by (simp only: set_map) (rule imageI)
    then show "?agree d"
      unfolding table_faked_modes [OF assms] by simp
  qed
  show "\<forall>i < HIT_COUNT. mode (hit_descriptor ?F ! i) = HIT_MODE_ANALOG \<longleftrightarrow>
      i \<in> {HIT_FUELVALUE, HIT_OILVALUE, HIT_TERMOVALUE}"
  proof (intro allI impI)
    fix i assume "i < HIT_COUNT"
    then have "mode (hit_descriptor ?F ! i) = HIT_MODE_ANALOG \<longleftrightarrow>
        i \<in> set (filter (\<lambda>i. mode (hit_descriptor ?F ! i) = HIT_MODE_ANALOG) [0..<HIT_COUNT])"
      by simp
    then show "mode (hit_descriptor ?F ! i) = HIT_MODE_ANALOG \<longleftrightarrow>
        i \<in> {HIT_FUELVALUE, HIT_OILVALUE, HIT_TERMOVALUE}"
      unfolding table_analog_rows by simp
  qed
  show "\<forall>d \<in> set (hit_descriptor ?F). \<not> is_faked ?F (sourceLocator d) \<longrightarrow>
      sourceLocator d \<noteq> FAKE_ANALOG_REAL_PIN"
  proof (intro ballI impI)
    fix d assume "d \<in> set (hit_descriptor ?F)" and "\<not> is_faked ?F (sourceLocator d)"
    then have "d \<in> set (filter (\<lambda>d. \<not> is_faked ?F (sourceLocator d)) (hit_descriptor ?F))"
      by simp
    then have "sourceLocator d \<in> set (map sourceLocator
        (filter (\<lambda>d. \<not> is_faked ?F (sourceLocator d)) (hit_descriptor ?F)))"
      by (simp only: set_map) (rule imageI)
    then show "sourceLocator d \<noteq> FAKE_ANALOG_REAL_PIN"
      unfolding table_real_pins [OF assms] by (auto simp add: FAKE_ANALOG_REAL_PIN_def)
  qed
qed

theorem faked_iff_analog_witness:
  "(128::int) \<noteq> 0 \<and> (128::int) AND 63 = 0
    \<and> hit_descriptor 128 ! HIT_OILVALUE \<in> set (hit_descriptor 128)
    \<and> mode (hit_descriptor 128 ! HIT_OILVALUE) = HIT_MODE_ANALOG
    \<and> is_faked 128 (sourceLocator (hit_descriptor 128 ! HIT_OILVALUE))
    \<and> HIT_GEAR < HIT_COUNT
    \<and> HIT_GEAR \<notin> {HIT_FUELVALUE, HIT_OILVALUE, HIT_TERMOVALUE}
    \<and> mode (hit_descriptor 128 ! HIT_GEAR) \<noteq> HIT_MODE_ANALOG
    \<and> hit_descriptor 128 ! HIT_GEAR \<in> set (hit_descriptor 128)
    \<and> \<not> is_faked 128 (sourceLocator (hit_descriptor 128 ! HIT_GEAR))
    \<and> sourceLocator (hit_descriptor 128 ! HIT_GEAR) \<noteq> FAKE_ANALOG_REAL_PIN"
proof -
  have flag: "(128::int) \<noteq> 0" "(128::int) AND 63 = 0" by simp_all
  note table = faked_iff_analog [OF flag]
  have oil: "hit_descriptor 128 ! HIT_OILVALUE \<in> set (hit_descriptor 128)"
    and gear: "hit_descriptor 128 ! HIT_GEAR \<in> set (hit_descriptor 128)"
    by (rule nth_mem, simp add: table_length HIT_defs)+
  have analog: "mode (hit_descriptor 128 ! HIT_OILVALUE) = HIT_MODE_ANALOG"
    by (simp add: hit_descriptor_def HIT_defs)
  have faked: "is_faked 128 (sourceLocator (hit_descriptor 128 ! HIT_OILVALUE))"
    using table oil analog by blast
  have idx: "HIT_GEAR < HIT_COUNT"
    and other: "HIT_GEAR \<notin> {HIT_FUELVALUE, HIT_OILVALUE, HIT_TERMOVALUE}"
    by (simp_all add: HIT_defs)
  have digital: "mode (hit_descriptor 128 ! HIT_GEAR) \<noteq> HIT_MODE_ANALOG"
    using table idx other by blast
  have real: "\<not> is_faked 128 (sourceLocator (hit_descriptor 128 ! HIT_GEAR))"
    using table gear digital by blast
  have "sourceLocator (hit_descriptor 128 ! HIT_GEAR) \<noteq> FAKE_ANALOG_REAL_PIN"
    using table gear real by blast
  with flag oil gear analog faked idx other digital real show ?thesis by blast
qed

section \<open>Properties of the report templates\<close>

lemma table_templates:
  "map reportTemplate (hit_descriptor F) =
    [''ICON 0'' @ EVFMT_NEWLINE, ''ICON 1'' @ EVFMT_NEWLINE, ''ICON 2'' @ EVFMT_NEWLINE,
     ''ICON 3'' @ EVFMT_NEWLINE, ''ICON 4'' @ EVFMT_NEWLINE, ''ICON 5'' @ EVFMT_NEWLINE,
     ''ICON 6'' @ EVFMT_NEWLINE, ''ICON 7 %c'' @ EVFMT_NEWLINE, ''ICON 8'' @ EVFMT_NEWLINE,
     ''ICON 9'' @ EVFMT_NEWLINE, ''ACCL %c'' @ EVFMT_NEWLINE, ''BREK %c'' @ EVFMT_NEWLINE,
     ''GAUG F %u'' @ EVFMT_NEWLINE, ''GAUG O %u'' @ EVFMT_NEWLINE,
     ''GAUG T %u'' @ EVFMT_NEWLINE, ''IGNT'' @ EVFMT_NEWLINE, ''HZRD'' @ EVFMT_NEWLINE,
     '''', ''GEAR%s'' @ EVFMT_NEWLINE]"
  by (simp add: hit_descriptor_def EVFMT_Icon_def EVFMT_Icon_PR_def EVFMT_Accelerate_def
      EVFMT_Brake_def EVFMT_Gauge_def EVFMT_Ignite_def EVFMT_Hazard_def EVFMT_Gear_def)

lemma nth_table_template:
  "i < HIT_COUNT \<Longrightarrow>
    reportTemplate (hit_descriptor F ! i) = map reportTemplate (hit_descriptor F) ! i"
  by (simp add: table_length)

subsection \<open>The row of the switch input\<close>


subsection \<open>The line ending\<close>

text \<open>
  The template of \<open>HIT_SWITCH_ANALOG\<close> is empty, so it does not end with carriage return
  and line feed.
\<close>

theorem switch_template_without_newline_counterexample:
  "\<not> suffix EVFMT_NEWLINE (reportTemplate (hit_descriptor 128 ! HIT_SWITCH_ANALOG))"
  by (simp add: hit_descriptor_def HIT_defs EVFMT_NEWLINE_def)

text \<open>
  C2, as the table has it: the report template of every row other than the row of
  \<open>HIT_SWITCH_ANALOG\<close> ends with the two bytes carriage return (0x0D) and line feed
  (0x0A), which are \<open>EVFMT_NEWLINE\<close>; the template of \<open>HIT_SWITCH_ANALOG\<close> is the empty
  string.
\<close>

theorem templates_end_with_newline:
  "EVFMT_NEWLINE = [CHR 0x0D, CHR 0x0A]
    \<and> (\<forall>i<HIT_COUNT. i \<noteq> HIT_SWITCH_ANALOG \<longrightarrow>
      suffix EVFMT_NEWLINE (reportTemplate (hit_descriptor HIT_INDEX_FAKED ! i)))
    \<and> reportTemplate (hit_descriptor HIT_INDEX_FAKED ! HIT_SWITCH_ANALOG) = ''''"
proof -
  have "\<forall>i<HIT_COUNT. i \<noteq> HIT_SWITCH_ANALOG \<longrightarrow>
      suffix EVFMT_NEWLINE (map reportTemplate (hit_descriptor HIT_INDEX_FAKED) ! i)"
    unfolding table_templates
    by (simp add: HIT_defs eval_nat_numeral All_less_Suc suffix_def)
  moreover have "map reportTemplate (hit_descriptor HIT_INDEX_FAKED) ! HIT_SWITCH_ANALOG = ''''"
    unfolding table_templates by (simp add: HIT_defs)
  moreover have "EVFMT_NEWLINE = [CHR 0x0D, CHR 0x0A]"
    by (rule EVFMT_NEWLINE_def)
  ultimately show ?thesis
    by (simp add: nth_table_template HIT_defs)
qed

theorem templates_end_with_newline_witness:
  "HIT_GEAR < HIT_COUNT \<and> HIT_GEAR \<noteq> HIT_SWITCH_ANALOG
    \<and> suffix EVFMT_NEWLINE (reportTemplate (hit_descriptor 128 ! HIT_GEAR))"
proof -
  have row: "HIT_GEAR < HIT_COUNT" and other: "HIT_GEAR \<noteq> HIT_SWITCH_ANALOG"
    by (simp_all add: HIT_defs)
  have "\<forall>i<HIT_COUNT. i \<noteq> HIT_SWITCH_ANALOG \<longrightarrow>
      suffix EVFMT_NEWLINE (reportTemplate (hit_descriptor 128 ! i))"
    using templates_end_with_newline [of 128] by blast
  then have "suffix EVFMT_NEWLINE (reportTemplate (hit_descriptor 128 ! HIT_GEAR))"
    using row other by blast
  with row other show ?thesis by blast
qed

subsection \<open>The templates and the wire protocol\<close>

text \<open>
  The template of \<open>HIT_SWITCH_ANALOG\<close> is none of the line formats of the wire protocol.
\<close>

theorem switch_template_no_wire_format_counterexample:
  "reportTemplate (hit_descriptor 128 ! HIT_SWITCH_ANALOG) \<notin> set wire_formats"
  by (simp add: hit_descriptor_def HIT_defs wire_formats_def wire_line_def)

text \<open>
  C3, as the table has it: for every logical input other than \<open>HIT_SWITCH_ANALOG\<close> the
  compiled-in report template equals the line format of the wire protocol: ICON n with no
  placeholder for the icons 0 to 6, 8 and 9, ICON 7 with \<open>%c\<close> for icon 7, ACCL and BREK
  with \<open>%c\<close> for the pedals, GAUG F, GAUG O and GAUG T with \<open>%u\<close> for the gauges, IGNT and
  HZRD for ignition and hazard, and GEAR with \<open>%s\<close> for the gear input, each followed by
  carriage return and line feed. The template of \<open>HIT_SWITCH_ANALOG\<close> is the empty string.
\<close>

theorem templates_match_wire_protocol:
  "reportTemplate (hit_descriptor HIT_INDEX_FAKED ! HIT_LBLINK) = wire_line ''ICON 0''
  \<and> reportTemplate (hit_descriptor HIT_INDEX_FAKED ! HIT_ENGINE) = wire_line ''ICON 1''
  \<and> reportTemplate (hit_descriptor HIT_INDEX_FAKED ! HIT_OIL) = wire_line ''ICON 2''
  \<and> reportTemplate (hit_descriptor HIT_INDEX_FAKED ! HIT_BRAKEABS) = wire_line ''ICON 3''
  \<and> reportTemplate (hit_descriptor HIT_INDEX_FAKED ! HIT_BATTERY) = wire_line ''ICON 4''
  \<and> reportTemplate (hit_descriptor HIT_INDEX_FAKED ! HIT_SEATBELT) = wire_line ''ICON 5''
  \<and> reportTemplate (hit_descriptor HIT_INDEX_FAKED ! HIT_DOOR) = wire_line ''ICON 6''
  \<and> reportTemplate (hit_descriptor HIT_INDEX_FAKED ! HIT_LIGHT) = wire_line ''ICON 7 %c''
  \<and> reportTemplate (hit_descriptor HIT_INDEX_FAKED ! HIT_HANDBRAKE) = wire_line ''ICON 8''
  \<and> reportTemplate (hit_descriptor HIT_INDEX_FAKED ! HIT_RBLINK) = wire_line ''ICON 9''
  \<and> reportTemplate (hit_descriptor HIT_INDEX_FAKED ! HIT_ACCEL) = wire_line ''ACCL %c''
  \<and> reportTemplate (hit_descriptor HIT_INDEX_FAKED ! HIT_BRAKE) = wire_line ''BREK %c''
  \<and> reportTemplate (hit_descriptor HIT_INDEX_FAKED ! HIT_FUELVALUE) = wire_line ''GAUG F %u''
  \<and> reportTemplate (hit_descriptor HIT_INDEX_FAKED ! HIT_OILVALUE) = wire_line ''GAUG O %u''
  \<and> reportTemplate (hit_descriptor HIT_INDEX_FAKED ! HIT_TERMOVALUE) = wire_line ''GAUG T %u''
  \<and> reportTemplate (hit_descriptor HIT_INDEX_FAKED ! HIT_IGNITION) = wire_line ''IGNT''
  \<and> reportTemplate (hit_descriptor HIT_INDEX_FAKED ! HIT_HAZARD_LIGHT) = wire_line ''HZRD''
  \<and> reportTemplate (hit_descriptor HIT_INDEX_FAKED ! HIT_GEAR) = wire_line ''GEAR%s''
  \<and> reportTemplate (hit_descriptor HIT_INDEX_FAKED ! HIT_SWITCH_ANALOG) = ''''"
  by (simp add: hit_descriptor_def HIT_defs wire_line_def EVFMT_defs)

subsection \<open>Placeholders by mode\<close>

lemma table_placeholders:
  "map (\<lambda>d. (mode d, reportTemplate d = '''', placeholders (reportTemplate d)))
      (hit_descriptor F) =
    [(HIT_MODE_PRESS, False, []), (HIT_MODE_PRESS, False, []), (HIT_MODE_PRESS, False, []),
     (HIT_MODE_PRESS, False, []), (HIT_MODE_PRESS, False, []), (HIT_MODE_PRESS, False, []),
     (HIT_MODE_PRESS, False, []), (HIT_MODE_PRESS_RELEASE, False, [''%c'']),
     (HIT_MODE_PRESS, False, []), (HIT_MODE_PRESS, False, []),
     (HIT_MODE_PRESS_RELEASE, False, [''%c'']), (HIT_MODE_PRESS_RELEASE, False, [''%c'']),
     (HIT_MODE_ANALOG, False, [''%u'']), (HIT_MODE_ANALOG, False, [''%u'']),
     (HIT_MODE_ANALOG, False, [''%u'']),
     (HIT_MODE_PRESS, False, []), (HIT_MODE_PRESS, False, []),
     (HIT_MODE_PRESS_RELEASE, True, []), (HIT_MODE_GEAR, False, [''%s''])]"
  by (simp add: hit_descriptor_def EVFMT_defs)

text \<open>
  C9: for every descriptor of the table the mode determines the placeholder of the report
  template. A \<open>HIT_MODE_PRESS\<close> template has no placeholder, a \<open>HIT_MODE_ANALOG\<close> template
  has exactly one, \<open>%u\<close>, a \<open>HIT_MODE_GEAR\<close> template has exactly one, \<open>%s\<close>, and a
  \<open>HIT_MODE_PRESS_RELEASE\<close> template is empty or has exactly one, \<open>%c\<close>. No template has
  more than one placeholder.
\<close>

theorem template_placeholder_by_mode:
  "\<forall>d \<in> set (hit_descriptor HIT_INDEX_FAKED).
     (mode d = HIT_MODE_PRESS \<longrightarrow> placeholders (reportTemplate d) = [])
   \<and> (mode d = HIT_MODE_ANALOG \<longrightarrow> placeholders (reportTemplate d) = [''%u''])
   \<and> (mode d = HIT_MODE_GEAR \<longrightarrow> placeholders (reportTemplate d) = [''%s''])
   \<and> (mode d = HIT_MODE_PRESS_RELEASE \<longrightarrow>
        reportTemplate d = '''' \<or> placeholders (reportTemplate d) = [''%c''])
   \<and> length (placeholders (reportTemplate d)) \<le> 1"
proof
  fix d assume "d \<in> set (hit_descriptor HIT_INDEX_FAKED)"
  let ?obs = "\<lambda>d. (mode d, reportTemplate d = '''', placeholders (reportTemplate d))"
  from \<open>d \<in> set (hit_descriptor HIT_INDEX_FAKED)\<close>
  have "?obs d \<in> set (map ?obs (hit_descriptor HIT_INDEX_FAKED))"
    by (simp only: set_map) (rule imageI)
  then show "(mode d = HIT_MODE_PRESS \<longrightarrow> placeholders (reportTemplate d) = [])
   \<and> (mode d = HIT_MODE_ANALOG \<longrightarrow> placeholders (reportTemplate d) = [''%u''])
   \<and> (mode d = HIT_MODE_GEAR \<longrightarrow> placeholders (reportTemplate d) = [''%s''])
   \<and> (mode d = HIT_MODE_PRESS_RELEASE \<longrightarrow>
        reportTemplate d = '''' \<or> placeholders (reportTemplate d) = [''%c''])
   \<and> length (placeholders (reportTemplate d)) \<le> 1"
    unfolding table_placeholders by auto
qed

theorem template_placeholder_by_mode_witness:
  "hit_descriptor 128 ! HIT_FUELVALUE \<in> set (hit_descriptor 128)
    \<and> mode (hit_descriptor 128 ! HIT_FUELVALUE) = HIT_MODE_ANALOG
    \<and> placeholders (reportTemplate (hit_descriptor 128 ! HIT_FUELVALUE)) = [''%u'']"
proof -
  have row: "hit_descriptor 128 ! HIT_FUELVALUE \<in> set (hit_descriptor 128)"
    by (rule nth_mem) (simp add: table_length HIT_defs)
  have analog: "mode (hit_descriptor 128 ! HIT_FUELVALUE) = HIT_MODE_ANALOG"
    by (simp add: hit_descriptor_def HIT_defs)
  have "placeholders (reportTemplate (hit_descriptor 128 ! HIT_FUELVALUE)) = [''%u'']"
    using template_placeholder_by_mode [of 128] row analog by blast
  with row analog show ?thesis by blast
qed

subsection \<open>Gear lines\<close>

text \<open>
  C6: substituting each of the three gear hints (the empty string, " L" and " S") into the
  gear report template, which is GEAR followed by \<open>%s\<close>, carriage return and line feed,
  yields exactly the three protocol lines GEAR, GEAR L and GEAR S, each ended by carriage
  return and line feed; the lines so produced are these three and no other.
\<close>

theorem gear_lines:
  "reportTemplate (hit_descriptor HIT_INDEX_FAKED ! HIT_GEAR) = ''GEAR%s'' @ [CHR 0x0D, CHR 0x0A]
   \<and> gear_hints = ['''', '' L'', '' S'']
   \<and> map (subst_hint (reportTemplate (hit_descriptor HIT_INDEX_FAKED ! HIT_GEAR))) gear_hints =
     [''GEAR'' @ [CHR 0x0D, CHR 0x0A], ''GEAR L'' @ [CHR 0x0D, CHR 0x0A],
      ''GEAR S'' @ [CHR 0x0D, CHR 0x0A]]
   \<and> set (map (subst_hint (reportTemplate (hit_descriptor HIT_INDEX_FAKED ! HIT_GEAR)))
        gear_hints) =
     {''GEAR'' @ [CHR 0x0D, CHR 0x0A], ''GEAR L'' @ [CHR 0x0D, CHR 0x0A],
      ''GEAR S'' @ [CHR 0x0D, CHR 0x0A]}"
  by (simp add: hit_descriptor_def HIT_defs gear_hints_def EVFMT_defs)

section \<open>The PRESS mode over a sequence of scan cycles\<close>

lemma press_scan_append:
  "press_scan t s (xs @ ys) =
    (case press_scan t s xs of (s', out) \<Rightarrow>
       (case press_scan t s' ys of (s'', outs) \<Rightarrow> (s'', out @ outs)))"
  by (induction xs arbitrary: s) (auto split: prod.splits)

lemma press_reports_append:
  "press_reports t s (xs @ ys) =
     press_reports t s xs @ press_reports t (fst (press_scan t s xs)) ys"
  by (simp add: press_reports_def press_scan_append split: prod.splits)

text \<open>After a cycle the state only depends on the sample of that cycle.\<close>

lemma press_state_after_snoc:
  "fst (press_scan t s (xs @ [raw])) = (if raw then Pressed else Idle)"
proof -
  have "fst (press_step t s' raw) = (if raw then Pressed else Idle)" for s'
    by (cases s'; cases raw) simp_all
  then show ?thesis
    by (simp add: press_scan_append split: prod.splits) (metis fst_conv)
qed

lemma press_reports_holding:
  "press_reports t Pressed (replicate n True) = []"
  by (induction n) (simp_all add: press_reports_def split: prod.splits)

lemma press_reports_edges:
  "length (press_reports t s raws) = rising_edges (s = Pressed) raws"
proof (induction raws arbitrary: s)
  case Nil
  show ?case by (simp add: press_reports_def)
next
  case (Cons raw raws)
  have step: "press_step t s raw =
      (if raw then Pressed else Idle, if s = Idle \<and> raw then [t] else [])"
    by (cases s; cases raw) simp_all
  have "press_reports t s (raw # raws) =
      (if s = Idle \<and> raw then [t] else [])
        @ press_reports t (if raw then Pressed else Idle) raws"
    by (simp add: press_reports_def step split: prod.splits)
  then show ?case
    using Cons.IH [of "if raw then Pressed else Idle"] by (cases s; cases raw) simp_all
qed

text \<open>
  C5: for a PRESS input with report template \<open>t\<close>, whatever its state \<open>s\<close> and whatever
  scan cycles \<open>pre\<close> came before: a cycle that samples true right after a cycle that
  sampled false adds exactly one report; a cycle that samples false right after a cycle
  that sampled true adds none; and after a cycle that sampled true, any number of further
  cycles that sample true add none. Over any sequence of cycles the number of reports is
  the number of transitions from false to true: transitions, not levels, drive the
  reports.
\<close>

theorem press_reports_on_rising_edges_only:
  "press_reports t s (pre @ [False, True]) = press_reports t s (pre @ [False]) @ [t]
   \<and> press_reports t s (pre @ [True, False]) = press_reports t s (pre @ [True])
   \<and> press_reports t s (pre @ True # replicate n True) = press_reports t s (pre @ [True])
   \<and> length (press_reports t s raws) = rising_edges (s = Pressed) raws"
proof (intro conjI)
  have "press_reports t s (pre @ [False, True]) = press_reports t s ((pre @ [False]) @ [True])"
    by simp
  also have "\<dots> = press_reports t s (pre @ [False]) @ press_reports t Idle [True]"
    unfolding press_reports_append [of t s "pre @ [False]"] press_state_after_snoc by simp
  finally show "press_reports t s (pre @ [False, True]) = press_reports t s (pre @ [False]) @ [t]"
    by (simp add: press_reports_def)
  have "press_reports t s (pre @ [True, False]) = press_reports t s ((pre @ [True]) @ [False])"
    by simp
  also have "\<dots> = press_reports t s (pre @ [True]) @ press_reports t Pressed [False]"
    unfolding press_reports_append [of t s "pre @ [True]"] press_state_after_snoc by simp
  finally show "press_reports t s (pre @ [True, False]) = press_reports t s (pre @ [True])"
    by (simp add: press_reports_def)
  have "press_reports t s (pre @ True # replicate n True) =
      press_reports t s ((pre @ [True]) @ replicate n True)"
    by simp
  also have "\<dots> = press_reports t s (pre @ [True])
      @ press_reports t Pressed (replicate n True)"
    unfolding press_reports_append [of t s "pre @ [True]"] press_state_after_snoc by simp
  finally show "press_reports t s (pre @ True # replicate n True) =
      press_reports t s (pre @ [True])"
    by (simp add: press_reports_holding)
  show "length (press_reports t s raws) = rising_edges (s = Pressed) raws"
    by (rule press_reports_edges)
qed

section \<open>Switching the fake analog source\<close>

lemma switch_analog_funpow:
  "(switch_analog ^^ k) b = b\<lparr>selector := (selector b + k) mod FAKE_ANALOG_COUNT\<rparr>"
  if "selector b < FAKE_ANALOG_COUNT \<or> 0 < k"
  using that
proof (induction k)
  case 0
  then show ?case by simp
next
  case (Suc k)
  show ?case
  proof (cases "k = 0")
    case True
    then show ?thesis by (simp add: switch_analog_def)
  next
    case False
    then have IH: "(switch_analog ^^ k) b =
        b\<lparr>selector := (selector b + k) mod FAKE_ANALOG_COUNT\<rparr>"
      using Suc.IH by simp
    have "(switch_analog ^^ Suc k) b = switch_analog ((switch_analog ^^ k) b)"
      by simp
    also have "\<dots> =
        switch_analog (b\<lparr>selector := (selector b + k) mod FAKE_ANALOG_COUNT\<rparr>)"
      by (simp only: IH)
    also have "\<dots> = b\<lparr>selector := (selector b + Suc k) mod FAKE_ANALOG_COUNT\<rparr>"
      by (simp add: switch_analog_def mod_Suc_eq)
    finally show ?thesis .
  qed
qed

lemma switch_analog_returns:
  assumes "selector b < FAKE_ANALOG_COUNT"
  shows "(switch_analog ^^ FAKE_ANALOG_COUNT) b = b"
  using assms by (simp add: switch_analog_funpow)

lemma switch_analog_not_before:
  assumes "selector b < FAKE_ANALOG_COUNT" and "0 < k" and "k < FAKE_ANALOG_COUNT"
  shows "selector ((switch_analog ^^ k) b) \<noteq> selector b"
proof -
  have "selector ((switch_analog ^^ k) b) = (selector b + k) mod FAKE_ANALOG_COUNT"
    using assms(2) by (simp add: switch_analog_funpow)
  moreover have "(selector b + k) mod FAKE_ANALOG_COUNT \<noteq> selector b"
    using assms unfolding FAKE_ANALOG_COUNT_def by presburger
  ultimately show ?thesis by simp
qed

text \<open>An event leaves the recorded value of a source that is not live as it is.\<close>

lemma fake_step_keeps_frozen:
  assumes "i < FAKE_ANALOG_COUNT" and "selector b \<noteq> i"
  shows "frozen (fake_step b e) ! i = frozen b ! i"
proof (cases e)
  case Trigger
  then show ?thesis by (simp add: switch_analog_def)
next
  case (Cycle reading)
  then show ?thesis using assms by (simp add: scan_fakes_def sample_fake_def)
qed

lemma never_live_last:
  "never_live i b es \<Longrightarrow> selector (fake_run b es) \<noteq> i"
  by (induction es arbitrary: b) simp_all

lemma never_live_frozen:
  assumes "i < FAKE_ANALOG_COUNT" and "never_live i b es"
  shows "frozen (fake_run b es) ! i = frozen b ! i"
  using assms(2)
proof (induction es arbitrary: b)
  case Nil
  show ?case by simp
next
  case (Cons e es)
  then have "selector b \<noteq> i" and rest: "never_live i (fake_step b e) es"
    by simp_all
  have "frozen (fake_run b (e # es)) ! i = frozen (fake_step b e) ! i"
    using Cons.IH [OF rest] by simp
  also have "\<dots> = frozen b ! i"
    using assms(1) \<open>selector b \<noteq> i\<close> by (rule fake_step_keeps_frozen)
  finally show ?case .
qed

lemma never_live_sample:
  assumes "i < FAKE_ANALOG_COUNT" and "never_live i b es"
  shows "sample_fake (fake_run b es) reading i = frozen b ! i"
  using never_live_last [OF assms(2)] never_live_frozen [OF assms]
  by (auto simp add: sample_fake_def)

lemma scan_fakes_records_live:
  assumes "selector b < FAKE_ANALOG_COUNT"
  shows "frozen (scan_fakes b v) ! selector b = v"
  using assms by (simp add: scan_fakes_def sample_fake_def)

text \<open>
  C7: with \<open>FAKE_ANALOG_COUNT\<close> = 3, advancing the selector once per trigger modulo
  \<open>FAKE_ANALOG_COUNT\<close> brings liveness back to the original fake source after exactly
  \<open>FAKE_ANALOG_COUNT\<close> triggers and not after fewer. While a fake source is not live,
  through any triggers and scan cycles, the value sampled for it stays the value recorded
  for it in the binding's table of \<open>FAKE_ANALOG_COUNT\<close> entries, whatever the real pin
  reads; in particular, when source \<open>i\<close> was live and read
  \<open>v\<close> in its last cycle before a trigger took liveness away, the value sampled for \<open>i\<close> is
  \<open>v\<close> for as long as \<open>i\<close> is not live again.
\<close>

theorem fake_selector_cycle_and_frozen_value:
  "FAKE_ANALOG_COUNT = 3
  \<and> (selector b < FAKE_ANALOG_COUNT \<longrightarrow>
       (switch_analog ^^ FAKE_ANALOG_COUNT) b = b
       \<and> (\<forall>k. 0 < k \<and> k < FAKE_ANALOG_COUNT \<longrightarrow>
             selector ((switch_analog ^^ k) b) \<noteq> selector b))
  \<and> (i < FAKE_ANALOG_COUNT \<and> length (frozen b) = FAKE_ANALOG_COUNT
       \<and> never_live i b es \<longrightarrow>
       sample_fake (fake_run b es) reading i = frozen b ! i)
  \<and> (selector b = i \<and> i < FAKE_ANALOG_COUNT
       \<and> never_live i (switch_analog (scan_fakes b v)) es \<longrightarrow>
       sample_fake (fake_run b (Cycle v # Trigger # es)) reading i = v)"
proof (intro conjI impI allI)
  show "FAKE_ANALOG_COUNT = 3" by (rule FAKE_ANALOG_COUNT_def)
next
  assume "selector b < FAKE_ANALOG_COUNT"
  then show "(switch_analog ^^ FAKE_ANALOG_COUNT) b = b" by (rule switch_analog_returns)
next
  fix k assume "selector b < FAKE_ANALOG_COUNT" and "0 < k \<and> k < FAKE_ANALOG_COUNT"
  then show "selector ((switch_analog ^^ k) b) \<noteq> selector b"
    by (simp add: switch_analog_not_before)
next
  assume "i < FAKE_ANALOG_COUNT \<and> length (frozen b) = FAKE_ANALOG_COUNT
    \<and> never_live i b es"
  then show "sample_fake (fake_run b es) reading i = frozen b ! i"
    by (simp add: never_live_sample)
next
  assume a: "selector b = i \<and> i < FAKE_ANALOG_COUNT
    \<and> never_live i (switch_analog (scan_fakes b v)) es"
  then have "sample_fake (fake_run (switch_analog (scan_fakes b v)) es) reading i =
      frozen (switch_analog (scan_fakes b v)) ! i"
    by (simp add: never_live_sample)
  also have "\<dots> = frozen (scan_fakes b v) ! selector b"
    using a by (simp add: switch_analog_def)
  also have "\<dots> = v"
    using a by (intro scan_fakes_records_live) simp
  finally show "sample_fake (fake_run b (Cycle v # Trigger # es)) reading i = v"
    by simp
qed

theorem fake_selector_cycle_and_frozen_value_witness:
  "selector \<lparr>selector = 0, frozen = [10, 20, 30]\<rparr> < FAKE_ANALOG_COUNT
    \<and> (switch_analog ^^ FAKE_ANALOG_COUNT) \<lparr>selector = 0, frozen = [10, 20, 30]\<rparr>
        = \<lparr>selector = 0, frozen = [10, 20, 30]\<rparr>
    \<and> 0 < (2::nat) \<and> 2 < FAKE_ANALOG_COUNT
    \<and> selector ((switch_analog ^^ 2) \<lparr>selector = 0, frozen = [10, 20, 30]\<rparr>) \<noteq> 0
    \<and> never_live 0 (switch_analog (scan_fakes \<lparr>selector = 0, frozen = [10, 20, 30]\<rparr> 99))
         [Cycle 5, Trigger, Cycle 7]
    \<and> sample_fake (fake_run \<lparr>selector = 0, frozen = [10, 20, 30]\<rparr>
         [Cycle 99, Trigger, Cycle 5, Trigger, Cycle 7]) 55 0 = 99
    \<and> length (frozen \<lparr>selector = 0, frozen = [10, 20, 30]\<rparr>) = FAKE_ANALOG_COUNT
    \<and> never_live 2 \<lparr>selector = 0, frozen = [10, 20, 30]\<rparr> [Cycle 5, Trigger, Cycle 7]
    \<and> sample_fake (fake_run \<lparr>selector = 0, frozen = [10, 20, 30]\<rparr>
         [Cycle 5, Trigger, Cycle 7]) 55 2 = 30"
proof -
  let ?b = "\<lparr>selector = 0, frozen = [10, 20, 30]\<rparr>"
  have sel: "selector ?b < FAKE_ANALOG_COUNT" and "selector ?b = 0"
    and k: "0 < (2::nat)" "2 < FAKE_ANALOG_COUNT"
    and i: "(0::nat) < FAKE_ANALOG_COUNT" "2 < FAKE_ANALOG_COUNT"
    and len: "length (frozen ?b) = FAKE_ANALOG_COUNT"
    by (simp_all add: FAKE_ANALOG_COUNT_def)
  have idle0: "never_live 0 (switch_analog (scan_fakes ?b 99)) [Cycle 5, Trigger, Cycle 7]"
    by (simp add: switch_analog_def scan_fakes_def sample_fake_def FAKE_ANALOG_COUNT_def)
  have idle2: "never_live 2 ?b [Cycle 5, Trigger, Cycle 7]"
    by (simp add: switch_analog_def scan_fakes_def sample_fake_def FAKE_ANALOG_COUNT_def)
  have "(switch_analog ^^ FAKE_ANALOG_COUNT) ?b = ?b"
    and "selector ((switch_analog ^^ 2) ?b) \<noteq> selector ?b"
    using fake_selector_cycle_and_frozen_value [of ?b] sel k by blast+
  moreover have "sample_fake
      (fake_run ?b (Cycle 99 # Trigger # [Cycle 5, Trigger, Cycle 7])) 55 0 = 99"
    using fake_selector_cycle_and_frozen_value [of ?b 0 "[Cycle 5, Trigger, Cycle 7]" 55 99]
      \<open>selector ?b = 0\<close> i(1) idle0 by blast
  moreover have "sample_fake (fake_run ?b [Cycle 5, Trigger, Cycle 7]) 55 2 = frozen ?b ! 2"
    using fake_selector_cycle_and_frozen_value [of ?b 2 "[Cycle 5, Trigger, Cycle 7]" 55]
      i(2) len idle2 by blast
  ultimately show ?thesis
    using sel k len idle0 idle2 by simp
qed

end
